theory Spec2Isabelle
  imports Main "HOL-Library.Word" "HOL-Library.Sublist"
begin

section \<open>The tunnel program of \<open>main.go\<close>\<close>

text \<open>
  \<open>main.go\<close> is one program with two modes. In mode \<open>client\<close> (the Gateway Node) it
  accepts application connections and rendezvous connections; in mode \<open>proxy\<close> (the Relay
  Node) it dials the rendezvous address and answers \<open>dial:\<close> lines. The model below is a
  shallow embedding: every function of the source is a HOL function over an explicit
  program state, which holds the package-level variables of the source together with the
  network as the program can observe it. Every network call appends an event to a trace,
  so that the order of the calls can be stated. Logging has no effect and is left out.
\<close>

subsection \<open>Library functions the program calls\<close>

type_synonym conn = nat

datatype error =
    EOF
  | ErrSyntax
  | ErrRange
  | ErrWrite
  | CantGetConn
  | NilPointer

abbreviation nl :: char where
  "nl \<equiv> CHR 0x0A"

text \<open>
  \<open>bufio.Reader.ReadString('\n')\<close> on the bytes that are still to arrive on a connection
  before its end of stream: the line up to and including the first newline, or, when no
  newline arrives, everything that was left together with an error. The second component
  is what remains to be read.
\<close>

definition ReadString :: "string \<Rightarrow> (string \<times> error option) \<times> string" where
  "ReadString bs =
     (if nl \<in> set bs
      then ((takeWhile (\<lambda>b. b \<noteq> nl) bs @ [nl], None), tl (dropWhile (\<lambda>b. b \<noteq> nl) bs))
      else ((bs, Some EOF), []))"

text \<open>
  \<open>strconv.Atoi\<close> on a platform whose \<open>int\<close> has 64 bits: an optional sign, then one or
  more decimal digits and nothing else; a value that does not fit is a range error.
\<close>

definition is_digit :: "char \<Rightarrow> bool" where
  "is_digit c = (48 \<le> (of_char c :: nat) \<and> (of_char c :: nat) \<le> 57)"

fun parse_digits :: "nat \<Rightarrow> string \<Rightarrow> nat option" where
  "parse_digits acc [] = Some acc"
| "parse_digits acc (c # cs) =
     (if is_digit c then parse_digits (acc * 10 + (of_char c - 48)) cs else None)"

definition Atoi :: "string \<Rightarrow> error + int" where
  "Atoi s =
     (let neg = (s \<noteq> [] \<and> hd s = CHR ''-'');
          ds = (if s \<noteq> [] \<and> (hd s = CHR ''-'' \<or> hd s = CHR ''+'') then tl s else s)
      in if ds = [] then Inl ErrSyntax
         else case parse_digits 0 ds of
           None \<Rightarrow> Inl ErrSyntax
         | Some n \<Rightarrow>
             (let v = (if neg then - int n else int n)
              in if - (2 ^ 63) \<le> v \<and> v < 2 ^ 63 then Inr v else Inl ErrRange))"

text \<open>\<open>fmt.Sprintf("%d", n)\<close>: the decimal digits of a number, with a minus sign if negative.\<close>

fun decimal :: "nat \<Rightarrow> string" where
  "decimal n =
     (if n < 10 then [''0123456789'' ! n]
      else decimal (n div 10) @ [''0123456789'' ! (n mod 10)])"

definition Sprintf_d :: "int \<Rightarrow> string" where
  "Sprintf_d i = (if i < 0 then CHR ''-'' # decimal (nat (- i)) else decimal (nat i))"

declare decimal.simps [simp del]

subsection \<open>The program state and the network\<close>

text \<open>
  A connection is a handle. The trace records every network call in the order in which
  the program makes it, with its result, and the table update of \<open>setProxyConn\<close>.
\<close>

datatype event =
    Dialed string "conn option"
  | ReadLine conn string "error option"
  | Wrote conn string "error option"
  | Closed conn
  | Registered "32 word" conn
  | Go_pipeRemote conn conn
  | Piped conn conn

text \<open>
  \<open>bufio.Writer\<close>: the connection it wraps, the bytes buffered and not yet flushed, and
  its sticky error. The lines this program writes are far shorter than the buffer, so the
  automatic flush of a full buffer is not modelled.
\<close>

record bufio_Writer =
  wr :: conn
  buf :: string
  werr :: "error option"

text \<open>
  The \<open>Dialer\<close> struct. A \<open>bufio.Reader\<close> is modelled by the connection it reads from
  (no second reader is ever made for the same connection while the first is in use);
  \<open>None\<close> is a nil pointer. The embedded \<open>sync.Mutex\<close> is never locked by the program
  (both places that would lock it are commented out), so it has no field here.
\<close>

record Dialer =
  conn :: "conn option"
  writer :: "bufio_Writer option"
  reader :: "conn option"
  conns :: "32 word \<rightharpoonup> conn"

text \<open>
  The package-level variables \<open>PAddr\<close>, \<open>RAddr\<close>, \<open>defaultDialer\<close> and \<open>proxyConnID\<close>, and
  the network as the program observes it:
  \<^item> \<open>rx c\<close> are the bytes still to arrive on connection \<open>c\<close> before its end of stream (a
    read never blocks for ever in this model: it returns a line or an error);
  \<^item> \<open>dial_outcome t a\<close> is what \<open>net.Dial("tcp", a)\<close> gives when \<open>t\<close> events have happened:
    \<open>None\<close> when it fails, otherwise the bytes the peer will send on the new connection;
  \<^item> \<open>write_outcome t c\<close> is the error, if any, of a write to \<open>c\<close> when \<open>t\<close> events have
    happened;
  \<^item> \<open>next_conn\<close> is the next unused handle.
\<close>

record state =
  PAddr :: string
  RAddr :: string
  defaultDialer :: "Dialer option"
  proxyConnID :: "32 word"
  rx :: "conn \<Rightarrow> string"
  dial_outcome :: "nat \<Rightarrow> string \<Rightarrow> string option"
  write_outcome :: "nat \<Rightarrow> conn \<Rightarrow> error option"
  next_conn :: conn
  trace :: "event list"

definition net_Dial :: "string \<Rightarrow> state \<Rightarrow> conn option \<times> state" where
  "net_Dial addr s =
     (case dial_outcome s (length (trace s)) addr of
        None \<Rightarrow> (None, s\<lparr>trace := trace s @ [Dialed addr None]\<rparr>)
      | Some bs \<Rightarrow>
          (Some (next_conn s),
           s\<lparr>rx := (rx s)(next_conn s := bs),
             next_conn := Suc (next_conn s),
             trace := trace s @ [Dialed addr (Some (next_conn s))]\<rparr>))"

definition conn_Write :: "conn \<Rightarrow> string \<Rightarrow> state \<Rightarrow> error option \<times> state" where
  "conn_Write c bs s =
     (write_outcome s (length (trace s)) c,
      s\<lparr>trace := trace s @ [Wrote c bs (write_outcome s (length (trace s)) c)]\<rparr>)"

definition Reader_ReadString :: "conn \<Rightarrow> state \<Rightarrow> (string \<times> error option) \<times> state" where
  "Reader_ReadString c s =
     (fst (ReadString (rx s c)),
      s\<lparr>rx := (rx s)(c := snd (ReadString (rx s c))),
        trace := trace s @
          [ReadLine c (fst (fst (ReadString (rx s c)))) (snd (fst (ReadString (rx s c))))]\<rparr>)"

definition bufio_NewWriter :: "conn \<Rightarrow> bufio_Writer" where
  "bufio_NewWriter c = \<lparr>wr = c, buf = [], werr = None\<rparr>"

definition Writer_WriteString :: "bufio_Writer \<Rightarrow> string \<Rightarrow> error option \<times> bufio_Writer" where
  "Writer_WriteString w bs =
     (case werr w of
        Some e \<Rightarrow> (Some e, w)
      | None \<Rightarrow> (None, w\<lparr>buf := buf w @ bs\<rparr>))"

definition Writer_Flush :: "bufio_Writer \<Rightarrow> state \<Rightarrow> bufio_Writer \<times> state" where
  "Writer_Flush w s =
     (case werr w of
        Some e \<Rightarrow> (w, s)
      | None \<Rightarrow>
          if buf w = [] then (w, s)
          else (case conn_Write (wr w) (buf w) s of
                  (None, s') \<Rightarrow> (w\<lparr>buf := []\<rparr>, s')
                | (Some e, s') \<Rightarrow> (w\<lparr>werr := Some e\<rparr>, s')))"

definition closeConn :: "conn \<Rightarrow> state \<Rightarrow> state" where
  "closeConn c s = s\<lparr>trace := trace s @ [Closed c]\<rparr>"

text \<open>\<open>atomic.AddInt32(&proxyConnID, delta)\<close>: one indivisible step; the sum wraps at 32 bits.\<close>

definition atomic_AddInt32 :: "32 word \<Rightarrow> state \<Rightarrow> 32 word \<times> state" where
  "atomic_AddInt32 delta s =
     (proxyConnID s + delta, s\<lparr>proxyConnID := proxyConnID s + delta\<rparr>)"

text \<open>The events that a run from \<open>s\<close> to \<open>s'\<close> has added to the trace.\<close>

definition new_events :: "state \<Rightarrow> state \<Rightarrow> event list" where
  "new_events s s' = drop (length (trace s)) (trace s')"

subsection \<open>The Relay Node\<close>

text \<open>
  \<open>handleOneProxy(r, w)\<close>: \<open>r\<close> is given by the connection it reads. \<open>go pipeRemote(...)\<close>
  starts a goroutine; the trace records that it was started, its copying runs
  concurrently and is not part of this function.
\<close>

definition handleOneProxy :: "conn \<Rightarrow> bufio_Writer \<Rightarrow> state \<Rightarrow> bufio_Writer \<times> state" where
  "handleOneProxy r w s =
     (case Reader_ReadString r s of
        ((line, Some e), s1) \<Rightarrow> (w, s1)
      | ((line, None), s1) \<Rightarrow>
          if length line \<le> 5 then (w, s1)
          else
            (case net_Dial (PAddr s1) s1 of
               (None, s2) \<Rightarrow> (w, s2)
             | (Some proxyConn, s2) \<Rightarrow>
                 (case net_Dial (drop 5 line) s2 of
                    (None, s3) \<Rightarrow> (w, s3)
                  | (Some rconn, s3) \<Rightarrow>
                      (case atomic_AddInt32 1 s3 of
                         (connID, s4) \<Rightarrow>
                           (case Reader_ReadString proxyConn
                                   (snd (conn_Write proxyConn (Sprintf_d (sint connID) @ [nl]) s4)) of
                              ((ack, Some e), s6) \<Rightarrow> (w, s6)
                            | ((ack, None), s6) \<Rightarrow>
                                (case Writer_Flush
                                        (snd (Writer_WriteString w (Sprintf_d (sint connID) @ [nl]))) s6 of
                                   (w', s7) \<Rightarrow>
                                     (w', s7\<lparr>trace := trace s7 @ [Go_pipeRemote rconn proxyConn]\<rparr>)))))))"

text \<open>The body of the loop of \<open>handleProxy\<close>, run \<open>n\<close> times.\<close>

fun handleProxy_iter :: "nat \<Rightarrow> conn \<Rightarrow> bufio_Writer \<Rightarrow> state \<Rightarrow> bufio_Writer \<times> state" where
  "handleProxy_iter 0 r w s = (w, s)"
| "handleProxy_iter (Suc n) r w s =
     (case handleOneProxy r w s of (w', s') \<Rightarrow> handleProxy_iter n r w' s')"

text \<open>
  The Connection IDs that \<open>n\<close> runs of the loop body allocate, oldest first: a run has
  allocated one exactly when it has changed \<open>proxyConnID\<close>.
\<close>

fun alloc_history :: "nat \<Rightarrow> conn \<Rightarrow> bufio_Writer \<Rightarrow> state \<Rightarrow> 32 word list" where
  "alloc_history 0 r w s = []"
| "alloc_history (Suc n) r w s =
     (case handleOneProxy r w s of
        (w', s') \<Rightarrow>
          (if proxyConnID s' = proxyConnID s then [] else [proxyConnID s'])
          @ alloc_history n r w' s')"

text \<open>
  \<open>handleProxy\<close>: the \<open>for\<close> loop has no exit, so the function is partial: \<open>None\<close> is
  "does not return". The deferred \<open>closeConn\<close> runs when the function returns.
\<close>

partial_function (option) handleProxy_loop :: "conn \<Rightarrow> bufio_Writer \<Rightarrow> state \<Rightarrow> state option" where
  "handleProxy_loop r w s =
     (case handleOneProxy r w s of (w', s') \<Rightarrow> handleProxy_loop r w' s')"

definition handleProxy :: "conn \<Rightarrow> state \<Rightarrow> state option" where
  "handleProxy c s = map_option (closeConn c) (handleProxy_loop c (bufio_NewWriter c) s)"

partial_function (option) serveProxy :: "state \<Rightarrow> state option" where
  "serveProxy s =
     (case net_Dial (PAddr s) s of
        (None, s') \<Rightarrow> serveProxy s'
      | (Some c, s') \<Rightarrow> Option.bind (handleProxy c s') serveProxy)"

subsection \<open>The Gateway Node\<close>

definition setConn :: "conn \<Rightarrow> Dialer \<Rightarrow> state \<Rightarrow> Dialer \<times> state" where
  "setConn c d s =
     (d\<lparr>conn := Some c, writer := Some (bufio_NewWriter c), reader := Some c\<rparr>,
      (case conn d of Some old \<Rightarrow> closeConn old s | None \<Rightarrow> s))"

definition NewDialer :: "conn \<Rightarrow> state \<Rightarrow> Dialer \<times> state" where
  "NewDialer c s = setConn c \<lparr>conn = None, writer = None, reader = None, conns = Map.empty\<rparr> s"

definition setProxyConn :: "32 word \<Rightarrow> conn \<Rightarrow> Dialer \<Rightarrow> state \<Rightarrow> Dialer \<times> state" where
  "setProxyConn connID c d s =
     (d\<lparr>conns := (conns d)(connID \<mapsto> c)\<rparr>, s\<lparr>trace := trace s @ [Registered connID c]\<rparr>)"

text \<open>The request line of \<open>Dial\<close>: \<open>fmt.Sprintf("dial:%s\n", addr)\<close>.\<close>

definition Sprintf_dial :: "string \<Rightarrow> string" where
  "Sprintf_dial addr = ''dial:'' @ addr @ [nl]"

text \<open>
  \<open>Dialer.Dial\<close> in two parts, split where the goroutine waits for the network: the
  request (lines 221 to 230) and the response (lines 231 to 244). A line read without
  error ends in a newline, so \<open>line[:len(line)-1]\<close> is \<open>butlast line\<close>; \<open>int32(connID)\<close>
  keeps the low 32 bits.
\<close>

definition Dial_request :: "string \<Rightarrow> Dialer \<Rightarrow> state \<Rightarrow> error option \<times> Dialer \<times> state" where
  "Dial_request addr d s =
     (case writer d of
        None \<Rightarrow> (Some NilPointer, d, s)
      | Some w \<Rightarrow>
          (case Writer_WriteString w (Sprintf_dial addr) of
             (Some e, w1) \<Rightarrow> (Some e, d\<lparr>writer := Some w1\<rparr>, s)
           | (None, w1) \<Rightarrow>
               (case Writer_Flush w1 s of
                  (w2, s1) \<Rightarrow> (None, d\<lparr>writer := Some w2\<rparr>, s1))))"

definition Dial_response :: "Dialer \<Rightarrow> state \<Rightarrow> (error + conn) \<times> Dialer \<times> state" where
  "Dial_response d s =
     (case reader d of
        None \<Rightarrow> (Inl NilPointer, d, s)
      | Some r \<Rightarrow>
          (case Reader_ReadString r s of
             ((line, Some e), s1) \<Rightarrow> (Inl e, d, s1)
           | ((line, None), s1) \<Rightarrow>
               (case Atoi (butlast line) of
                  Inl e \<Rightarrow> (Inl e, d, s1)
                | Inr connID \<Rightarrow>
                    (case conns d (word_of_int connID) of
                       None \<Rightarrow> (Inl CantGetConn, d, s1)
                     | Some c \<Rightarrow> (Inr c, d, s1)))))"

definition Dial :: "string \<Rightarrow> Dialer \<Rightarrow> state \<Rightarrow> (error + conn) \<times> Dialer \<times> state" where
  "Dial addr d s =
     (case Dial_request addr d s of
        (Some e, d1, s1) \<Rightarrow> (Inl e, d1, s1)
      | (None, d1, s1) \<Rightarrow> Dial_response d1 s1)"

text \<open>
  \<open>handleClientProxyConn\<close>: the handler of a rendezvous connection. The Dialer is reached
  through the pointer \<open>defaultDialer\<close>, so its update is stored back there.
\<close>

definition handleClientProxyConn :: "conn \<Rightarrow> state \<Rightarrow> state" where
  "handleClientProxyConn c s =
     (case defaultDialer s of
        None \<Rightarrow> (case NewDialer c s of (d, s1) \<Rightarrow> s1\<lparr>defaultDialer := Some d\<rparr>)
      | Some d \<Rightarrow>
          (case Reader_ReadString c s of
             ((line, Some e), s1) \<Rightarrow> s1
           | ((line, None), s1) \<Rightarrow>
               (case Atoi (butlast line) of
                  Inl e \<Rightarrow> s1
                | Inr connID \<Rightarrow>
                    (case setProxyConn (word_of_int connID) c d s1 of
                       (d', s2) \<Rightarrow>
                         snd (conn_Write c ''ok\<newline>'' (s2\<lparr>defaultDialer := Some d'\<rparr>))))))"

text \<open>
  \<open>handleClientConn\<close>: the handler of an application connection. The two copy loops are one
  \<open>Piped\<close> event; the deferred closes run last, in reverse order.
\<close>

definition handleClientConn :: "conn \<Rightarrow> state \<Rightarrow> state" where
  "handleClientConn c s =
     (case defaultDialer s of
        None \<Rightarrow> closeConn c s
      | Some d \<Rightarrow>
          (case Dial (RAddr s) d s of
             (Inl e, d1, s1) \<Rightarrow> closeConn c (s1\<lparr>defaultDialer := Some d1\<rparr>)
           | (Inr rconn, d1, s1) \<Rightarrow>
               closeConn c (closeConn rconn
                 (s1\<lparr>defaultDialer := Some d1, trace := trace s1 @ [Piped c rconn]\<rparr>))))"

subsection \<open>Goroutines on the Gateway\<close>

text \<open>
  Every application connection is handled by its own goroutine, and all of them call
  \<open>Dial\<close> on the one Dialer behind \<open>defaultDialer\<close>, with no lock. A goroutine can be
  descheduled where it waits for the network, so the two parts of \<open>Dial\<close> are separate
  steps on the shared state, and steps of other goroutines can come between them.
  \<open>arrive\<close> is a step of the network: bytes sent by the peer become readable.
\<close>

definition Dial_request_step :: "string \<Rightarrow> state \<Rightarrow> state" where
  "Dial_request_step addr s =
     (case defaultDialer s of
        None \<Rightarrow> s
      | Some d \<Rightarrow>
          (case Dial_request addr d s of (e, d1, s1) \<Rightarrow> s1\<lparr>defaultDialer := Some d1\<rparr>))"

definition Dial_response_step :: "state \<Rightarrow> (error + conn) \<times> state" where
  "Dial_response_step s =
     (case defaultDialer s of
        None \<Rightarrow> (Inl NilPointer, s)
      | Some d \<Rightarrow>
          (case Dial_response d s of (res, d1, s1) \<Rightarrow> (res, s1\<lparr>defaultDialer := Some d1\<rparr>)))"

definition arrive :: "conn \<Rightarrow> string \<Rightarrow> state \<Rightarrow> state" where
  "arrive c bs s = s\<lparr>rx := (rx s)(c := rx s c @ bs)\<rparr>"

subsection \<open>The lookup as the specification words it\<close>

text \<open>
  The specification's \<open>await(id, timeout)\<close> "blocks the calling Dial Request until
  \<open>register\<close> is called for that ID or the timeout elapses". Here \<open>arrivals\<close> are the
  registrations that are made before the timeout elapses, in their order. This definition
  follows the specification, not the source; it is what \<open>Dial\<close> is compared with.
\<close>

datatype dial_failure = DialTimeout | DialFailed

definition await_spec :: "(32 word \<rightharpoonup> conn) \<Rightarrow> 32 word \<Rightarrow> (32 word \<times> conn) list \<Rightarrow> dial_failure + conn" where
  "await_spec table connID arrivals =
     (case table connID of
        Some c \<Rightarrow> Inr c
      | None \<Rightarrow>
          (case map_of arrivals connID of
             Some c \<Rightarrow> Inr c
           | None \<Rightarrow> Inl DialTimeout))"

subsection \<open>Concrete states\<close>

text \<open>
  A Relay Node whose Control Link is connection 0 and will deliver the bytes \<open>bs\<close>; every
  dial succeeds, except to the addresses in \<open>down\<close>, and every new connection delivers
  \<open>ack\<close>; no write fails.
\<close>

definition relay_state :: "string \<Rightarrow> string list \<Rightarrow> string \<Rightarrow> state" where
  "relay_state bs down ack =
     \<lparr>PAddr = ''127.0.0.1:7002'', RAddr = ''www.qq.com:80'', defaultDialer = None,
      proxyConnID = 0, rx = (\<lambda>c. [])(0 := bs),
      dial_outcome = (\<lambda>t a. if a \<in> set down then None else Some ack),
      write_outcome = (\<lambda>t c. None), next_conn = 1, trace = []\<rparr>"

text \<open>A Gateway Node with no Dialer yet, on whose connections the bytes \<open>inbound\<close> arrive.\<close>

definition gateway_state :: "(conn \<Rightarrow> string) \<Rightarrow> state" where
  "gateway_state inbound =
     \<lparr>PAddr = ''127.0.0.1:7002'', RAddr = ''www.qq.com:80'', defaultDialer = None,
      proxyConnID = 0, rx = inbound,
      dial_outcome = (\<lambda>t a. None),
      write_outcome = (\<lambda>t c. None), next_conn = 100, trace = []\<rparr>"

text \<open>
  A Gateway whose Control Link is connection 1, with an empty table, on which the
  response line \<open>1\<close> is about to be read.
\<close>

definition early_response :: state where
  "early_response = handleClientProxyConn 1 (gateway_state ((\<lambda>c. [])(1 := ''1\<newline>'')))"

text \<open>
  The same Gateway after the Data Link that announces ID 1 has arrived as connection 2,
  and the Dialer it then has.
\<close>

definition one_registered :: state where
  "one_registered =
     handleClientProxyConn 2
       (handleClientProxyConn 1 (gateway_state ((\<lambda>c. [])(1 := ''1\<newline>'', 2 := ''1\<newline>''))))"

definition dialer_of_1 :: "(32 word \<rightharpoonup> conn) \<Rightarrow> Dialer" where
  "dialer_of_1 table =
     \<lparr>conn = Some 1, writer = Some (bufio_NewWriter 1), reader = Some 1, conns = table\<rparr>"

text \<open>
  Two goroutines, A and then B, have each written a request on the Control Link
  (connection 1). The Relay has answered in the order of the requests: for the first
  request it has opened the Data Link that arrives as connection 2 and announces ID 1,
  and has then written the line \<open>1\<close> on the Control Link; for the second request,
  connection 3 with ID 2 and the line \<open>2\<close>. Neither goroutine has read its response yet.
\<close>

definition two_pending_dials :: state where
  "two_pending_dials =
     arrive 1 ''2\<newline>''
       (handleClientProxyConn 3 (arrive 3 ''2\<newline>''
         (arrive 1 ''1\<newline>''
           (handleClientProxyConn 2 (arrive 2 ''1\<newline>''
             (Dial_request_step ''b.example:80''
               (Dial_request_step ''a.example:80''
                 (handleClientProxyConn 1 (gateway_state (\<lambda>c. []))))))))))"

section \<open>Properties\<close>

subsection \<open>The paths of \<open>handleOneProxy\<close>\<close>

text \<open>
  A line that \<open>ReadString\<close> returns without an error is not empty and ends in the
  newline, so the slices \<open>line[:len(line)-1]\<close> of the source are in range. The lemmas
  after it give the result of \<open>handleOneProxy\<close> on each of its paths, in terms of what
  the network does at each call.
\<close>

lemma ReadString_ok:
  assumes "ReadString bs = ((line, None), rest)"
  shows "nl \<in> set bs \<and> line = takeWhile (\<lambda>b. b \<noteq> nl) bs @ [nl] \<and> bs = line @ rest"
proof -
  let ?P = "\<lambda>b. b \<noteq> nl"
  from assms have mem: "nl \<in> set bs"
    by (simp add: ReadString_def split: if_splits)
  with assms have line: "line = takeWhile ?P bs @ [nl]" and rest: "rest = tl (dropWhile ?P bs)"
    by (simp_all add: ReadString_def)
  from mem have "dropWhile ?P bs \<noteq> []"
    by (simp add: dropWhile_eq_Nil_conv)
  then obtain y ys where d: "dropWhile ?P bs = y # ys"
    by (cases "dropWhile ?P bs") auto
  from hd_dropWhile [of ?P bs] d have "y = nl"
    by simp
  with d have "takeWhile ?P bs @ nl # ys = bs"
    using takeWhile_dropWhile_id [of ?P bs] by simp
  with line rest d mem show ?thesis
    by simp
qed

lemma net_Dial_fail:
  "dial_outcome s (length (trace s)) a = None \<Longrightarrow>
   net_Dial a s = (None, s\<lparr>trace := trace s @ [Dialed a None]\<rparr>)"
  by (simp add: net_Dial_def)

lemma net_Dial_ok:
  "dial_outcome s (length (trace s)) a = Some bs \<Longrightarrow>
   net_Dial a s =
     (Some (next_conn s),
      s\<lparr>rx := (rx s)(next_conn s := bs), next_conn := Suc (next_conn s),
        trace := trace s @ [Dialed a (Some (next_conn s))]\<rparr>)"
  by (simp add: net_Dial_def)

lemma Reader_ReadString_eq:
  "ReadString (rx s c) = ((line, err), rest) \<Longrightarrow>
   Reader_ReadString c s =
     ((line, err), s\<lparr>rx := (rx s)(c := rest), trace := trace s @ [ReadLine c line err]\<rparr>)"
  by (simp add: Reader_ReadString_def)

lemma hop_read_error:
  assumes "ReadString (rx s r) = ((line, Some e), rest)"
  shows "handleOneProxy r w s =
           (w, s\<lparr>rx := (rx s)(r := rest), trace := trace s @ [ReadLine r line (Some e)]\<rparr>)"
  by (simp add: handleOneProxy_def Reader_ReadString_eq [OF assms])

lemma hop_short:
  assumes "ReadString (rx s r) = ((line, None), rest)" and "length line \<le> 5"
  shows "handleOneProxy r w s =
           (w, s\<lparr>rx := (rx s)(r := rest), trace := trace s @ [ReadLine r line None]\<rparr>)"
  using assms(2) by (simp add: handleOneProxy_def Reader_ReadString_eq [OF assms(1)])

lemma hop_no_data_link:
  assumes "ReadString (rx s r) = ((line, None), rest)" and "5 < length line"
    and "dial_outcome s (Suc (length (trace s))) (PAddr s) = None"
  shows "handleOneProxy r w s =
           (w, s\<lparr>rx := (rx s)(r := rest),
                 trace := trace s @ [ReadLine r line None, Dialed (PAddr s) None]\<rparr>)"
  using assms(2,3)
  by (simp add: handleOneProxy_def Reader_ReadString_eq [OF assms(1)] net_Dial_fail)

lemma hop_no_target:
  assumes "ReadString (rx s r) = ((line, None), rest)" and "5 < length line"
    and "dial_outcome s (Suc (length (trace s))) (PAddr s) = Some bs"
    and "dial_outcome s (Suc (Suc (length (trace s)))) (drop 5 line) = None"
  shows "handleOneProxy r w s =
           (w, s\<lparr>rx := (rx s)(r := rest, next_conn s := bs),
                 next_conn := Suc (next_conn s),
                 trace := trace s @ [ReadLine r line None, Dialed (PAddr s) (Some (next_conn s)),
                                     Dialed (drop 5 line) None]\<rparr>)"
  using assms(2,3,4)
  by (simp add: handleOneProxy_def Reader_ReadString_eq [OF assms(1)] net_Dial_fail net_Dial_ok)


lemma hop_no_ack:
  assumes "ReadString (rx s r) = ((line, None), rest)" and "5 < length line"
    and "dial_outcome s (Suc (length (trace s))) (PAddr s) = Some bs"
    and "dial_outcome s (Suc (Suc (length (trace s)))) (drop 5 line) = Some bs'"
    and "ReadString bs = ((ack, Some e), rest')"
  shows "handleOneProxy r w s =
           (w, s\<lparr>proxyConnID := proxyConnID s + 1,
                 rx := (rx s)(r := rest, next_conn s := bs, Suc (next_conn s) := bs',
                              next_conn s := rest'),
                 next_conn := Suc (Suc (next_conn s)),
                 trace := trace s @
                   [ReadLine r line None, Dialed (PAddr s) (Some (next_conn s)),
                    Dialed (drop 5 line) (Some (Suc (next_conn s))),
                    Wrote (next_conn s) (Sprintf_d (sint (proxyConnID s + 1)) @ [nl])
                      (write_outcome s (Suc (Suc (Suc (length (trace s))))) (next_conn s)),
                    ReadLine (next_conn s) ack (Some e)]\<rparr>)"
  using assms(2,3,4,5)
  apply (simp add: handleOneProxy_def Reader_ReadString_eq [OF assms(1)] net_Dial_ok
      atomic_AddInt32_def conn_Write_def)
  apply (simp add: Reader_ReadString_def)
  done

lemma hop_handshake:
  assumes "ReadString (rx s r) = ((line, None), rest)" and "5 < length line"
    and "dial_outcome s (Suc (length (trace s))) (PAddr s) = Some bs"
    and "dial_outcome s (Suc (Suc (length (trace s)))) (drop 5 line) = Some bs'"
    and "ReadString bs = ((ack, None), rest')"
  shows "handleOneProxy r w s =
           (case Writer_Flush
                   (snd (Writer_WriteString w (Sprintf_d (sint (proxyConnID s + 1)) @ [nl])))
                   (s\<lparr>next_conn := Suc (Suc (next_conn s)),
                      proxyConnID := proxyConnID s + 1,
                      rx := (rx s)(r := rest, next_conn s := bs, Suc (next_conn s) := bs',
                                   next_conn s := rest'),
                      trace := trace s @
                        [ReadLine r line None, Dialed (PAddr s) (Some (next_conn s)),
                         Dialed (drop 5 line) (Some (Suc (next_conn s))),
                         Wrote (next_conn s) (Sprintf_d (sint (proxyConnID s + 1)) @ [nl])
                           (write_outcome s (Suc (Suc (Suc (length (trace s))))) (next_conn s)),
                         ReadLine (next_conn s) ack None]\<rparr>) of
              (w', s7) \<Rightarrow>
                (w', s7\<lparr>trace := trace s7 @ [Go_pipeRemote (Suc (next_conn s)) (next_conn s)]\<rparr>))"
  using assms(2,3,4,5)
  apply (simp add: handleOneProxy_def Reader_ReadString_eq [OF assms(1)] net_Dial_ok
      atomic_AddInt32_def conn_Write_def)
  apply (simp add: Reader_ReadString_def)
  done

lemma Writer_flush_line:
  "bs \<noteq> [] \<Longrightarrow>
   trace (snd (Writer_Flush (snd (Writer_WriteString w bs)) s)) =
     trace s @ (if werr w = None
                then [Wrote (wr w) (buf w @ bs) (write_outcome s (length (trace s)) (wr w))]
                else [])
   \<and> proxyConnID (snd (Writer_Flush (snd (Writer_WriteString w bs)) s)) = proxyConnID s"
  by (auto simp: Writer_Flush_def Writer_WriteString_def conn_Write_def split: option.splits)

lemma Sprintf_d_nonempty: "Sprintf_d i \<noteq> []"
  by (simp add: Sprintf_d_def decimal.simps [of "nat i"] decimal.simps [of "nat (- i)"])


lemma new_events_append [simp]: "trace s' = trace s @ evs \<Longrightarrow> new_events s s' = evs"
  by (simp add: new_events_def)

text \<open>Every run of the handler takes one of six paths.\<close>

lemma hop_cases:
  obtains
    (read_error) line e rest where "ReadString (rx s r) = ((line, Some e), rest)"
  | (short) line rest where "ReadString (rx s r) = ((line, None), rest)" "length line \<le> 5"
  | (no_data_link) line rest where "ReadString (rx s r) = ((line, None), rest)" "5 < length line"
      "dial_outcome s (Suc (length (trace s))) (PAddr s) = None"
  | (no_target) line rest bs where "ReadString (rx s r) = ((line, None), rest)" "5 < length line"
      "dial_outcome s (Suc (length (trace s))) (PAddr s) = Some bs"
      "dial_outcome s (Suc (Suc (length (trace s)))) (drop 5 line) = None"
  | (no_ack) line rest bs bs' ack e rest' where
      "ReadString (rx s r) = ((line, None), rest)" "5 < length line"
      "dial_outcome s (Suc (length (trace s))) (PAddr s) = Some bs"
      "dial_outcome s (Suc (Suc (length (trace s)))) (drop 5 line) = Some bs'"
      "ReadString bs = ((ack, Some e), rest')"
  | (handshake) line rest bs bs' ack rest' where
      "ReadString (rx s r) = ((line, None), rest)" "5 < length line"
      "dial_outcome s (Suc (length (trace s))) (PAddr s) = Some bs"
      "dial_outcome s (Suc (Suc (length (trace s)))) (drop 5 line) = Some bs'"
      "ReadString bs = ((ack, None), rest')"
proof -
  obtain line err rest where rd: "ReadString (rx s r) = ((line, err), rest)"
    by (metis surj_pair)
  show thesis
  proof (cases err)
    case (Some e)
    with rd read_error show ?thesis by blast
  next
    case None
    note ok = rd [unfolded None]
    show ?thesis
    proof (cases "length line \<le> 5")
      case True
      with ok short show ?thesis by blast
    next
      case False
      then have long: "5 < length line" by simp
      show ?thesis
      proof (cases "dial_outcome s (Suc (length (trace s))) (PAddr s)")
        case None
        with ok long no_data_link show ?thesis by blast
      next
        case (Some bs)
        note d1 = this
        show ?thesis
        proof (cases "dial_outcome s (Suc (Suc (length (trace s)))) (drop 5 line)")
          case None
          with ok long d1 no_target show ?thesis by blast
        next
          case (Some bs')
          obtain ack err' rest' where rd': "ReadString bs = ((ack, err'), rest')"
            by (metis surj_pair)
          show ?thesis
          proof (cases err')
            case None
            with ok long d1 Some rd' handshake show ?thesis by blast
          next
            case (Some e)
            with ok long d1 \<open>dial_outcome s (Suc (Suc (length (trace s)))) (drop 5 line) = Some bs'\<close>
              rd' no_ack show ?thesis by blast
          qed
        qed
      qed
    qed
  qed
qed

lemma hop_handshake_trace:
  assumes "ReadString (rx s r) = ((line, None), rest)" and "5 < length line"
    and "dial_outcome s (Suc (length (trace s))) (PAddr s) = Some bs"
    and "dial_outcome s (Suc (Suc (length (trace s)))) (drop 5 line) = Some bs'"
    and "ReadString bs = ((ack, None), rest')"
  shows "trace (snd (handleOneProxy r w s)) =
           trace s @
           [ReadLine r line None, Dialed (PAddr s) (Some (next_conn s)),
            Dialed (drop 5 line) (Some (Suc (next_conn s))),
            Wrote (next_conn s) (Sprintf_d (sint (proxyConnID s + 1)) @ [nl])
              (write_outcome s (Suc (Suc (Suc (length (trace s))))) (next_conn s)),
            ReadLine (next_conn s) ack None] @
           (if werr w = None
            then [Wrote (wr w) (buf w @ Sprintf_d (sint (proxyConnID s + 1)) @ [nl])
                    (write_outcome s (length (trace s) + 5) (wr w))]
            else []) @
           [Go_pipeRemote (Suc (next_conn s)) (next_conn s)]"
    and "proxyConnID (snd (handleOneProxy r w s)) = proxyConnID s + 1"
  by (simp_all add: hop_handshake [OF assms] split_beta Writer_flush_line eval_nat_numeral)

subsection \<open>The request line on the Relay Node\<close>

text \<open>
  C10: a line read off the Control Link is treated as a dial request, that is, the handler
  goes on to dial the rendezvous address, exactly when it is longer than 5 bytes, newline
  included; a shorter line ends the handler with nothing but the read. The address then
  dialled as the target is the line without its first 5 bytes, whatever these are.
\<close>

theorem C10_request_iff_longer_than_5:
  assumes "ReadString (rx s r) = ((line, None), rest)"
  shows "(5 < length line \<longleftrightarrow>
            (\<exists>res. take 2 (new_events s (snd (handleOneProxy r w s))) =
                     [ReadLine r line None, Dialed (PAddr s) res]))
       \<and> (length line \<le> 5 \<longrightarrow>
            new_events s (snd (handleOneProxy r w s)) = [ReadLine r line None])
       \<and> (5 < length line \<longrightarrow>
            (\<forall>p. take 2 (new_events s (snd (handleOneProxy r w s))) =
                    [ReadLine r line None, Dialed (PAddr s) (Some p)] \<longrightarrow>
              (\<exists>res. take 3 (new_events s (snd (handleOneProxy r w s))) =
                      [ReadLine r line None, Dialed (PAddr s) (Some p), Dialed (drop 5 line) res])))"
proof (cases rule: hop_cases [of s r])
  case (read_error line' e rest')
  with assms show ?thesis by simp
next
  case (short line' rest')
  with assms have "line' = line" "rest' = rest" by simp_all
  with short show ?thesis
    by (simp add: hop_short [OF short])
next
  case (no_data_link line' rest')
  with assms have "line' = line" "rest' = rest" by simp_all
  with no_data_link show ?thesis
    by (simp add: hop_no_data_link [OF no_data_link])
next
  case (no_target line' rest' bs)
  with assms have "line' = line" "rest' = rest" by simp_all
  with no_target show ?thesis
    by (simp add: hop_no_target [OF no_target])
next
  case (no_ack line' rest' bs bs' ack e rest'')
  with assms have "line' = line" "rest' = rest" by simp_all
  with no_ack show ?thesis
    by (simp add: hop_no_ack [OF no_ack])
next
  case (handshake line' rest' bs bs' ack rest'')
  with assms have "line' = line" "rest' = rest" by simp_all
  with handshake show ?thesis
    by (simp add: hop_handshake_trace(1) [OF handshake])
qed


theorem C10_request_iff_longer_than_5_witness:
  "ReadString (rx (relay_state ''hello world\<newline>'' [] ''ok\<newline>'') 0) = ((''hello world\<newline>'', None), [])
   \<and> 5 < length ''hello world\<newline>''
   \<and> (\<exists>res. take 3 (new_events (relay_state ''hello world\<newline>'' [] ''ok\<newline>'')
                  (snd (handleOneProxy 0 (bufio_NewWriter 0)
                          (relay_state ''hello world\<newline>'' [] ''ok\<newline>'')))) =
               [ReadLine 0 ''hello world\<newline>'' None, Dialed ''127.0.0.1:7002'' (Some 1),
                Dialed '' world\<newline>'' res])"
proof -
  let ?s = "relay_state ''hello world\<newline>'' [] ''ok\<newline>''"
  have rd: "ReadString (rx ?s 0) = ((''hello world\<newline>'', None), [])"
    by (simp add: relay_state_def ReadString_def)
  have two: "take 2 (new_events ?s (snd (handleOneProxy 0 (bufio_NewWriter 0) ?s))) =
               [ReadLine 0 ''hello world\<newline>'' None, Dialed (PAddr ?s) (Some 1)]"
    by code_simp
  from C10_request_iff_longer_than_5 [OF rd, of "bufio_NewWriter 0"] two rd show ?thesis
    by (simp add: relay_state_def)
qed

text \<open>The line \<open>dial:\<close> with nothing but its newline is accepted; the target is the newline.\<close>

lemma empty_address_accepted:
  "new_events (relay_state ''dial:\<newline>'' [] ''ok\<newline>'')
     (snd (handleOneProxy 0 (bufio_NewWriter 0) (relay_state ''dial:\<newline>'' [] ''ok\<newline>''))) =
   [ReadLine 0 ''dial:\<newline>'' None, Dialed ''127.0.0.1:7002'' (Some 1), Dialed ''\<newline>'' (Some 2),
    Wrote 1 ''1\<newline>'' None, ReadLine 1 ''ok\<newline>'' None, Wrote 0 ''1\<newline>'' None,
    Go_pipeRemote 2 1]"
proof -
  let ?s = "relay_state ''dial:\<newline>'' [] ''ok\<newline>''"
  have rd: "ReadString (rx ?s 0) = ((''dial:\<newline>'', None), [])"
    by (simp add: relay_state_def ReadString_def)
  show ?thesis
    by code_simp
qed

subsection \<open>The order of the relay handshake\<close>

text \<open>
  C5: when the handler completes the handshake, that is, when it starts \<open>pipeRemote\<close>, the
  calls it has made are, in this order: the read of the request, the two dials, the write
  of the Connection ID on the new Data Link (the first call on that connection), the read
  of the acknowledgement line from the Data Link, the write of the Connection ID on the
  Control Link (left out when the Control Link's writer has failed before), and the start
  of the relay.
\<close>

theorem C5_handshake_order:
  assumes "Go_pipeRemote t p \<in> set (new_events s (snd (handleOneProxy r w s)))"
  shows "\<exists>line ack.
           new_events s (snd (handleOneProxy r w s)) =
             [ReadLine r line None, Dialed (PAddr s) (Some p), Dialed (drop 5 line) (Some t),
              Wrote p (Sprintf_d (sint (proxyConnID s + 1)) @ [nl])
                (write_outcome s (length (trace s) + 3) p),
              ReadLine p ack None] @
             (if werr w = None
              then [Wrote (wr w) (buf w @ Sprintf_d (sint (proxyConnID s + 1)) @ [nl])
                      (write_outcome s (length (trace s) + 5) (wr w))]
              else []) @
             [Go_pipeRemote t p]"
proof (cases rule: hop_cases [of s r])
  case (read_error line e rest)
  with assms show ?thesis by (simp add: hop_read_error [OF read_error])
next
  case (short line rest)
  with assms show ?thesis by (simp add: hop_short [OF short])
next
  case (no_data_link line rest)
  with assms show ?thesis by (simp add: hop_no_data_link [OF no_data_link])
next
  case (no_target line rest bs)
  with assms show ?thesis by (simp add: hop_no_target [OF no_target])
next
  case (no_ack line rest bs bs' ack e rest')
  with assms show ?thesis by (simp add: hop_no_ack [OF no_ack])
next
  case (handshake line rest bs bs' ack rest')
  from assms have "t = Suc (next_conn s)" "p = next_conn s"
    by (simp_all add: hop_handshake_trace(1) [OF handshake] split: if_splits)
  then show ?thesis
    by (simp add: hop_handshake_trace(1) [OF handshake] eval_nat_numeral)
qed

theorem C5_handshake_order_witness:
  "Go_pipeRemote 2 1 \<in> set (new_events (relay_state ''dial:www.qq.com:80\<newline>'' [] ''ok\<newline>'')
      (snd (handleOneProxy 0 (bufio_NewWriter 0) (relay_state ''dial:www.qq.com:80\<newline>'' [] ''ok\<newline>''))))
   \<and> (\<exists>line ack.
        new_events (relay_state ''dial:www.qq.com:80\<newline>'' [] ''ok\<newline>'')
          (snd (handleOneProxy 0 (bufio_NewWriter 0) (relay_state ''dial:www.qq.com:80\<newline>'' [] ''ok\<newline>''))) =
        [ReadLine 0 line None, Dialed ''127.0.0.1:7002'' (Some 1), Dialed (drop 5 line) (Some 2),
         Wrote 1 ''1\<newline>'' None, ReadLine 1 ack None, Wrote 0 ''1\<newline>'' None,
         Go_pipeRemote 2 1])"
proof -
  let ?s = "relay_state ''dial:www.qq.com:80\<newline>'' [] ''ok\<newline>''"
  have fin: "Go_pipeRemote 2 1 \<in> set (new_events ?s (snd (handleOneProxy 0 (bufio_NewWriter 0) ?s)))"
    by code_simp
  have vals: "PAddr ?s = ''127.0.0.1:7002''" "proxyConnID ?s = 0" "trace ?s = []"
    "write_outcome ?s = (\<lambda>t c. None)"
    by (simp_all add: relay_state_def)
  have id: "Sprintf_d 1 = ''1''"
    by code_simp
  from C5_handshake_order [OF fin] fin show ?thesis
    by (simp add: vals id bufio_NewWriter_def)
qed

subsection \<open>Abandoned requests\<close>

text \<open>The handler never closes a connection, on any path.\<close>

lemma handleOneProxy_never_closes:
  "Closed c \<notin> set (new_events s (snd (handleOneProxy r w s)))"
proof (cases rule: hop_cases [of s r])
  case (read_error line e rest)
  then show ?thesis by (simp add: hop_read_error [OF read_error])
next
  case (short line rest)
  then show ?thesis by (simp add: hop_short [OF short])
next
  case (no_data_link line rest)
  then show ?thesis by (simp add: hop_no_data_link [OF no_data_link])
next
  case (no_target line rest bs)
  then show ?thesis by (simp add: hop_no_target [OF no_target])
next
  case (no_ack line rest bs bs' ack e rest')
  then show ?thesis by (simp add: hop_no_ack [OF no_ack])
next
  case (handshake line rest bs bs' ack rest')
  then show ?thesis by (simp add: hop_handshake_trace(1) [OF handshake])
qed

text \<open>
  C3, at two inputs. First the dial to the target fails after the Data Link (connection
  1) was opened; then both connections (1 and 2) are open and the Data Link ends without
  an acknowledgement line. In both runs nothing is written on the Control Link (connection
  0), and no connection is closed.
\<close>

theorem C3_abandoned_request_closes_nothing:
  "new_events (relay_state ''dial:www.qq.com:80\<newline>'' [''www.qq.com:80\<newline>''] ''ok\<newline>'')
     (snd (handleOneProxy 0 (bufio_NewWriter 0)
        (relay_state ''dial:www.qq.com:80\<newline>'' [''www.qq.com:80\<newline>''] ''ok\<newline>''))) =
     [ReadLine 0 ''dial:www.qq.com:80\<newline>'' None, Dialed ''127.0.0.1:7002'' (Some 1),
      Dialed ''www.qq.com:80\<newline>'' None]
   \<and> new_events (relay_state ''dial:www.qq.com:80\<newline>'' [] [])
     (snd (handleOneProxy 0 (bufio_NewWriter 0)
        (relay_state ''dial:www.qq.com:80\<newline>'' [] []))) =
     [ReadLine 0 ''dial:www.qq.com:80\<newline>'' None, Dialed ''127.0.0.1:7002'' (Some 1),
      Dialed ''www.qq.com:80\<newline>'' (Some 2), Wrote 1 ''1\<newline>'' None,
      ReadLine 1 [] (Some EOF)]"
  by code_simp

subsection \<open>The request line from the Gateway to the Relay\<close>

lemma ReadString_line:
  assumes "nl \<notin> set bs"
  shows "ReadString (bs @ nl # tail) = ((bs @ [nl], None), tail)"
proof -
  from assms have "takeWhile (\<lambda>b. b \<noteq> nl) (bs @ nl # tail) = bs"
    by (induction bs) auto
  moreover from assms have "dropWhile (\<lambda>b. b \<noteq> nl) (bs @ nl # tail) = nl # tail"
    by (induction bs) auto
  ultimately show ?thesis
    by (simp add: ReadString_def)
qed

text \<open>
  What the Relay takes as the target address of a request line written by \<open>Dial\<close> is the
  address followed by the newline of the line.
\<close>

lemma dial_line_decoded:
  assumes "nl \<notin> set addr"
  shows "ReadString (Sprintf_dial addr @ tail) = ((Sprintf_dial addr, None), tail)"
    and "5 < length (Sprintf_dial addr)"
    and "drop 5 (Sprintf_dial addr) = addr @ [nl]"
  using assms ReadString_line [of "''dial:'' @ addr" tail]
  by (simp_all add: Sprintf_dial_def)

text \<open>
  C2, at the address \<open>www.qq.com:80\<close>: \<open>Dial\<close> writes the line \<open>dial:www.qq.com:80\<close> with
  its newline on the Control Link (connection 1 of the Gateway), and the Relay that reads
  this line dials the target \<open>www.qq.com:80\<close> followed by a newline.
\<close>

theorem C2_decoded_address_keeps_newline:
  "new_events (gateway_state (\<lambda>c. []))
     (snd (snd (Dial_request ''www.qq.com:80''
        (fst (NewDialer 1 (gateway_state (\<lambda>c. [])))) (gateway_state (\<lambda>c. []))))) =
     [Wrote 1 ''dial:www.qq.com:80\<newline>'' None]
   \<and> take 3 (new_events (relay_state ''dial:www.qq.com:80\<newline>'' [] ''ok\<newline>'')
     (snd (handleOneProxy 0 (bufio_NewWriter 0)
        (relay_state ''dial:www.qq.com:80\<newline>'' [] ''ok\<newline>'')))) =
     [ReadLine 0 ''dial:www.qq.com:80\<newline>'' None, Dialed ''127.0.0.1:7002'' (Some 1),
      Dialed ''www.qq.com:80\<newline>'' (Some 2)]
   \<and> ''www.qq.com:80\<newline>'' \<noteq> ''www.qq.com:80''"
  by code_simp

subsection \<open>The loop of \<open>handleProxy\<close>\<close>

lemma handleProxy_loop_never_returns: "handleProxy_loop r w s = None"
proof (cases "handleProxy_loop r w s")
  case (Some s')
  have "handleProxy_loop r w s = Some s' \<Longrightarrow> False"
    by (rule handleProxy_loop.raw_induct [where P = "\<lambda>_ _ _ _. False"])
       (auto split: prod.splits)
  with Some show ?thesis by simp
qed simp

lemma handleProxy_never_returns: "handleProxy c s = None"
  by (simp add: handleProxy_def handleProxy_loop_never_returns)

lemma serveProxy_never_returns: "serveProxy s = None"
proof (cases "serveProxy s")
  case (Some s')
  have "serveProxy s = Some s' \<Longrightarrow> False"
    by (rule serveProxy.raw_induct [where P = "\<lambda>_ _. False"])
       (auto simp: handleProxy_never_returns split: prod.splits option.splits)
  with Some show ?thesis by simp
qed simp

text \<open>
  On a Control Link that has reached its end of stream every run of the loop body is one
  failed read, and nothing else.
\<close>

lemma handleProxy_iter_dead_link:
  "rx s r = [] \<Longrightarrow>
   fst (handleProxy_iter n r w s) = w \<and>
   trace (snd (handleProxy_iter n r w s)) = trace s @ replicate n (ReadLine r [] (Some EOF))"
proof (induction n arbitrary: s)
  case 0
  then show ?case by simp
next
  case (Suc n)
  let ?s' = "s\<lparr>rx := (rx s)(r := []), trace := trace s @ [ReadLine r [] (Some EOF)]\<rparr>"
  from Suc.prems have rd: "ReadString (rx s r) = (([], Some EOF), [])"
    by (simp add: ReadString_def)
  have step: "handleOneProxy r w s = (w, ?s')"
    by (rule hop_read_error [OF rd])
  have "rx ?s' r = []" by simp
  from Suc.IH [OF this] show ?case
    by (simp add: step replicate_app_Cons_same)
qed

text \<open>
  C7, on a Control Link (connection 0) that is at its end of stream: \<open>handleProxy\<close> does
  not return, so its deferred \<open>closeConn\<close> never runs and \<open>serveProxy\<close> never dials again;
  three runs of the loop body are three failed reads of the same connection.
\<close>

theorem C7_dead_control_link_spins:
  "handleProxy 0 (relay_state [] [] []) = None
   \<and> serveProxy (relay_state [] [] []) = None
   \<and> new_events (relay_state [] [] [])
       (snd (handleProxy_iter 3 0 (bufio_NewWriter 0) (relay_state [] [] []))) =
       [ReadLine 0 [] (Some EOF), ReadLine 0 [] (Some EOF), ReadLine 0 [] (Some EOF)]"
proof -
  have "new_events (relay_state [] [] [])
       (snd (handleProxy_iter 3 0 (bufio_NewWriter 0) (relay_state [] [] []))) =
       [ReadLine 0 [] (Some EOF), ReadLine 0 [] (Some EOF), ReadLine 0 [] (Some EOF)]"
    by code_simp
  then show ?thesis
    by (simp add: handleProxy_never_returns serveProxy_never_returns)
qed

text \<open>The definitions that a run on a concrete state unfolds.\<close>

lemma Sprintf_d_values: "Sprintf_d 1 = ''1''" "Sprintf_d 2 = ''2''"
  by code_simp+

lemmas run_defs =
  handleOneProxy_def Reader_ReadString_def ReadString_def net_Dial_def conn_Write_def
  Writer_WriteString_def Writer_Flush_def closeConn_def atomic_AddInt32_def bufio_NewWriter_def
  new_events_def relay_state_def gateway_state_def Sprintf_d_values eval_nat_numeral

subsection \<open>The Connection-ID counter\<close>

lemma sint_succ:
  fixes c :: "32 word"
  assumes "sint c < 2 ^ 31 - 1"
  shows "sint (c + 1) = sint c + 1"
proof -
  have lo: "- (2 ^ 31) \<le> sint c"
    using sint_ge [of c] by simp
  have "sint (c + 1) = signed_take_bit 31 (sint c + sint (1 :: 32 word))"
    using sint_word_ariths(1) [of c 1] by simp
  also have "\<dots> = signed_take_bit 31 (sint c + 1)"
    by simp
  also from lo assms have "\<dots> = sint c + 1"
    by (intro signed_take_bit_int_eq_self) simp_all
  finally show ?thesis .
qed

text \<open>One run of the handler leaves the counter as it is or adds one to it.\<close>

lemma handleOneProxy_counter:
  "proxyConnID (snd (handleOneProxy r w s)) = proxyConnID s
   \<or> proxyConnID (snd (handleOneProxy r w s)) = proxyConnID s + 1"
proof (cases rule: hop_cases [of s r])
  case (read_error line e rest)
  then show ?thesis by (simp add: hop_read_error [OF read_error])
next
  case (short line rest)
  then show ?thesis by (simp add: hop_short [OF short])
next
  case (no_data_link line rest)
  then show ?thesis by (simp add: hop_no_data_link [OF no_data_link])
next
  case (no_target line rest bs)
  then show ?thesis by (simp add: hop_no_target [OF no_target])
next
  case (no_ack line rest bs bs' ack e rest')
  then show ?thesis by (simp add: hop_no_ack [OF no_ack])
next
  case (handshake line rest bs bs' ack rest')
  then show ?thesis by (simp add: hop_handshake_trace(2) [OF handshake])
qed

lemma alloc_history_bounds:
  assumes "0 \<le> sint (proxyConnID s)" and "sint (proxyConnID s) + int n < 2 ^ 31"
  shows "sorted_wrt (<) (map sint (alloc_history n r w s))
       \<and> (\<forall>i \<in> set (alloc_history n r w s).
            sint (proxyConnID s) < sint i \<and> sint i \<le> sint (proxyConnID s) + int n)"
  using assms
proof (induction n arbitrary: w s)
  case 0
  then show ?case by simp
next
  case (Suc n)
  obtain w' s' where step: "handleOneProxy r w s = (w', s')"
    by (cases "handleOneProxy r w s")
  from Suc.prems have small: "sint (proxyConnID s) < 2 ^ 31 - 1"
    by simp
  from handleOneProxy_counter [of r w s] step
  have "proxyConnID s' = proxyConnID s \<or> proxyConnID s' = proxyConnID s + 1"
    by simp
  then show ?case
  proof
    assume same: "proxyConnID s' = proxyConnID s"
    with Suc.prems have pre: "0 \<le> sint (proxyConnID s')" "sint (proxyConnID s') + int n < 2 ^ 31"
      by auto
    from Suc.IH [OF pre, of w'] same show ?thesis
      by (fastforce simp: step)
  next
    assume "proxyConnID s' = proxyConnID s + 1"
    with sint_succ [OF small] have next_id: "sint (proxyConnID s') = sint (proxyConnID s) + 1"
      by simp
    then have changed: "proxyConnID s' \<noteq> proxyConnID s"
      by auto
    from next_id Suc.prems
    have pre: "0 \<le> sint (proxyConnID s')" "sint (proxyConnID s') + int n < 2 ^ 31"
      by auto
    from Suc.IH [OF pre, of w'] next_id changed show ?thesis
      by (fastforce simp: step)
  qed
qed

text \<open>
  C6: the Connection IDs that the Relay allocates in any number of runs of the handler,
  as long as the counter does not pass the largest 32-bit value, are strictly increasing
  (as signed 32-bit numbers), pairwise distinct and positive; every one is the counter
  plus one.
\<close>

theorem C6_connection_ids_increase:
  assumes "0 \<le> sint (proxyConnID s)" and "sint (proxyConnID s) + int n < 2 ^ 31"
  shows "sorted_wrt (<) (map sint (alloc_history n r w s))
       \<and> distinct (alloc_history n r w s)
       \<and> (\<forall>i \<in> set (alloc_history n r w s). 0 < sint i)
       \<and> fst (atomic_AddInt32 1 s) = proxyConnID s + 1
       \<and> proxyConnID (snd (atomic_AddInt32 1 s)) = proxyConnID s + 1
       \<and> (0 < n \<longrightarrow> sint (fst (atomic_AddInt32 1 s)) = sint (proxyConnID s) + 1)"
proof -
  note b = alloc_history_bounds [OF assms, of r w]
  from b have "distinct (map sint (alloc_history n r w s))"
    by (simp add: strict_sorted_iff)
  then have "distinct (alloc_history n r w s)"
    by (simp add: distinct_map)
  moreover from b assms(1) have "\<forall>i \<in> set (alloc_history n r w s). 0 < sint i"
    by fastforce
  moreover have "sint (proxyConnID s + 1) = sint (proxyConnID s) + 1" if "0 < n"
    using that assms(2) by (intro sint_succ) simp
  ultimately show ?thesis
    using b by (simp add: atomic_AddInt32_def)
qed

theorem C6_connection_ids_increase_witness:
  "0 \<le> sint (proxyConnID (relay_state ''dial:a:1\<newline>dial:b:2\<newline>'' [] ''ok\<newline>''))
   \<and> sint (proxyConnID (relay_state ''dial:a:1\<newline>dial:b:2\<newline>'' [] ''ok\<newline>'')) + int 2 < 2 ^ 31
   \<and> alloc_history 2 0 (bufio_NewWriter 0)
         (relay_state ''dial:a:1\<newline>dial:b:2\<newline>'' [] ''ok\<newline>'') = [1, 2]
   \<and> sorted_wrt (<) (map sint (alloc_history 2 0 (bufio_NewWriter 0)
         (relay_state ''dial:a:1\<newline>dial:b:2\<newline>'' [] ''ok\<newline>'')))
   \<and> distinct (alloc_history 2 0 (bufio_NewWriter 0)
         (relay_state ''dial:a:1\<newline>dial:b:2\<newline>'' [] ''ok\<newline>''))"
proof -
  let ?s = "relay_state ''dial:a:1\<newline>dial:b:2\<newline>'' [] ''ok\<newline>''"
  have h1: "0 \<le> sint (proxyConnID ?s)"
    by (simp add: relay_state_def)
  have h2: "sint (proxyConnID ?s) + int 2 < 2 ^ 31"
    by (simp add: relay_state_def)
  have run: "alloc_history 2 0 (bufio_NewWriter 0) ?s = [1, 2]"
    by (simp add: run_defs)
  from C6_connection_ids_increase [OF h1 h2, of 0 "bufio_NewWriter 0"]
  have "sorted_wrt (<) (map sint (alloc_history 2 0 (bufio_NewWriter 0) ?s))"
    and "distinct (alloc_history 2 0 (bufio_NewWriter 0) ?s)"
    by blast+
  with h1 h2 run show ?thesis
    by blast
qed

text \<open>At the largest 32-bit value the next Connection ID is negative.\<close>

lemma atomic_AddInt32_wraps:
  "sint (fst (atomic_AddInt32 1 (s\<lparr>proxyConnID := 2147483647\<rparr>))) = - 2147483648"
  by (simp add: atomic_AddInt32_def)

subsection \<open>Rendezvous connections on the Gateway\<close>

lemmas gateway_defs =
  handleClientProxyConn_def handleClientConn_def NewDialer_def setConn_def setProxyConn_def
  Dial_def Dial_request_def Dial_response_def Dial_request_step_def Dial_response_step_def
  arrive_def Sprintf_dial_def Atoi_def is_digit_def early_response_def two_pending_dials_def

text \<open>
  C4: a rendezvous connection that arrives when there is no Dialer becomes the Control
  Link of a new Dialer, and the handler makes no call on it. When there is a Dialer, the
  handler reads one line; if the line was read and is a number, the connection is
  registered under that number, cut to 32 bits, and after that \<open>ok\<close> is written on the same
  connection, and these are all the calls. If the line was not read or is not a number,
  the read is the only call and the Dialer is as before.
\<close>

theorem C4_rendezvous_classified:
  "(defaultDialer s = None \<longrightarrow>
      handleClientProxyConn c s =
        s\<lparr>defaultDialer := Some \<lparr>conn = Some c, writer = Some (bufio_NewWriter c),
                                   reader = Some c, conns = Map.empty\<rparr>\<rparr>)
   \<and> (\<forall>d line rest n.
        defaultDialer s = Some d \<and> ReadString (rx s c) = ((line, None), rest)
          \<and> Atoi (butlast line) = Inr n \<longrightarrow>
        new_events s (handleClientProxyConn c s) =
          [ReadLine c line None, Registered (word_of_int n) c,
           Wrote c ''ok\<newline>'' (write_outcome s (length (trace s) + 2) c)]
        \<and> defaultDialer (handleClientProxyConn c s) =
            Some (d\<lparr>conns := (conns d)(word_of_int n \<mapsto> c)\<rparr>))
   \<and> (\<forall>d line err rest.
        defaultDialer s = Some d \<and> ReadString (rx s c) = ((line, err), rest)
          \<and> (err \<noteq> None \<or> isl (Atoi (butlast line))) \<longrightarrow>
        new_events s (handleClientProxyConn c s) = [ReadLine c line err]
        \<and> defaultDialer (handleClientProxyConn c s) = Some d)"
  by (auto simp: handleClientProxyConn_def NewDialer_def setConn_def setProxyConn_def
      Reader_ReadString_def conn_Write_def new_events_def eval_nat_numeral
      split: sum.splits option.splits)


theorem C4_rendezvous_classified_witness:
  "defaultDialer (gateway_state ((\<lambda>c. [])(2 := ''7\<newline>''))) = None
   \<and> new_events (gateway_state ((\<lambda>c. [])(2 := ''7\<newline>'')))
        (handleClientProxyConn 1 (gateway_state ((\<lambda>c. [])(2 := ''7\<newline>'')))) = []
   \<and> new_events (handleClientProxyConn 1 (gateway_state ((\<lambda>c. [])(2 := ''7\<newline>''))))
        (handleClientProxyConn 2
           (handleClientProxyConn 1 (gateway_state ((\<lambda>c. [])(2 := ''7\<newline>''))))) =
        [ReadLine 2 ''7\<newline>'' None, Registered 7 2, Wrote 2 ''ok\<newline>'' None]"
proof -
  let ?g = "gateway_state ((\<lambda>c. [])(2 := ''7\<newline>''))"
  let ?d = "\<lparr>conn = Some 1, writer = Some (bufio_NewWriter 1), reader = Some 1,
             conns = Map.empty\<rparr>"
  have none: "defaultDialer ?g = None"
    by (simp add: gateway_state_def)
  with C4_rendezvous_classified [of ?g 1]
  have first: "handleClientProxyConn 1 ?g = ?g\<lparr>defaultDialer := Some ?d\<rparr>"
    by blast
  have some: "defaultDialer (handleClientProxyConn 1 ?g) = Some ?d"
    unfolding first by simp
  have rd: "ReadString (rx (handleClientProxyConn 1 ?g) 2) = ((''7\<newline>'', None), [])"
    unfolding first by (simp add: gateway_state_def ReadString_def)
  have num: "Atoi (butlast ''7\<newline>'') = Inr 7"
    by (simp add: Atoi_def is_digit_def)
  from C4_rendezvous_classified [of "handleClientProxyConn 1 ?g" 2] some rd num
  have "new_events (handleClientProxyConn 1 ?g)
          (handleClientProxyConn 2 (handleClientProxyConn 1 ?g)) =
        [ReadLine 2 ''7\<newline>'' None, Registered (word_of_int 7) 2,
         Wrote 2 ''ok\<newline>''
           (write_outcome (handleClientProxyConn 1 ?g)
              (length (trace (handleClientProxyConn 1 ?g)) + 2) 2)]"
    by blast
  moreover have "write_outcome (handleClientProxyConn 1 ?g) = (\<lambda>t c. None)"
    unfolding first by (simp add: gateway_state_def)
  moreover have "new_events ?g (handleClientProxyConn 1 ?g) = []"
    unfolding first by (simp add: new_events_def)
  ultimately show ?thesis
    using none by simp
qed

subsection \<open>The lookup of \<open>Dial\<close>\<close>

lemma Dial_request_frame:
  "conns (fst (snd (Dial_request addr d s))) = conns d"
  "reader (fst (snd (Dial_request addr d s))) = reader d"
  "rx (snd (snd (Dial_request addr d s))) = rx s"
  by (auto simp: Dial_request_def Writer_WriteString_def Writer_Flush_def conn_Write_def
      split: option.splits)

lemma Dial_response_frame: "fst (snd (Dial_response d s)) = d"
  by (auto simp: Dial_response_def Reader_ReadString_def split: option.splits sum.splits prod.splits)

lemma Dial_after_request:
  "fst (Dial_request addr d s) = None \<Longrightarrow>
   Dial addr d s =
     Dial_response (fst (snd (Dial_request addr d s))) (snd (snd (Dial_request addr d s)))"
  by (auto simp: Dial_def split: prod.splits)

lemma Dial_response_lookup:
  assumes "reader d = Some r" and "ReadString (rx s r) = ((line, None), rest)"
    and "Atoi (butlast line) = Inr n"
  shows "fst (Dial_response d s) =
           (case conns d (word_of_int n) of None \<Rightarrow> Inl CantGetConn | Some c \<Rightarrow> Inr c)"
  using assms
  by (simp add: Dial_response_def Reader_ReadString_def split: option.splits)

text \<open>
  C1, as the code has it: once the request is written and the response line is read and
  is a number, the result of \<open>Dial\<close> is one lookup of that number, cut to 32 bits, in the
  table as it is at that moment: the connection registered there, or the error
  \<open>can't get conn\<close>. This is what the specification's \<open>await\<close> gives when no
  registration is still to come.
\<close>

theorem C1_dial_looks_up_once:
  assumes "fst (Dial_request addr d s) = None" and "reader d = Some r"
    and "ReadString (rx s r) = ((line, None), rest)" and "Atoi (butlast line) = Inr n"
  shows "fst (Dial addr d s) =
           (case conns d (word_of_int n) of None \<Rightarrow> Inl CantGetConn | Some c \<Rightarrow> Inr c)
       \<and> (fst (Dial addr d s) = Inr c \<longleftrightarrow> await_spec (conns d) (word_of_int n) [] = Inr c)"
proof -
  let ?d1 = "fst (snd (Dial_request addr d s))" and ?s1 = "snd (snd (Dial_request addr d s))"
  from assms(2,3) have "reader ?d1 = Some r" "ReadString (rx ?s1 r) = ((line, None), rest)"
    by (simp_all add: Dial_request_frame)
  from Dial_response_lookup [OF this assms(4)]
  have "fst (Dial addr d s) =
          (case conns d (word_of_int n) of None \<Rightarrow> Inl CantGetConn | Some c \<Rightarrow> Inr c)"
    by (simp add: Dial_after_request [OF assms(1)] Dial_request_frame)
  then show ?thesis
    by (simp add: await_spec_def split: option.splits)
qed

lemma early_response_dialer: "defaultDialer early_response = Some (dialer_of_1 Map.empty)"
  by (simp add: gateway_defs run_defs dialer_of_1_def)

lemma one_registered_dialer: "defaultDialer one_registered = Some (dialer_of_1 [1 \<mapsto> 2])"
  by (simp add: gateway_defs run_defs dialer_of_1_def one_registered_def)

text \<open>
  The claim C1 fails on the Gateway \<open>early_response\<close>: the response line \<open>1\<close> is read while
  the table is empty, and \<open>Dial\<close> fails at once, while \<open>await\<close>, with the registration of
  ID 1 still to arrive before the timeout, returns the registered connection.
\<close>

theorem C1_counterexample:
  "defaultDialer early_response = Some (dialer_of_1 Map.empty)
   \<and> fst (Dial ''www.qq.com:80'' (dialer_of_1 Map.empty) early_response) = Inl CantGetConn
   \<and> new_events early_response (handleClientConn 9 early_response) =
       [Wrote 1 ''dial:www.qq.com:80\<newline>'' None, ReadLine 1 ''1\<newline>'' None, Closed 9]
   \<and> await_spec (conns (dialer_of_1 Map.empty)) 1 [(1, 7)] = Inr 7"
  by (simp add: gateway_defs run_defs dialer_of_1_def await_spec_def)

theorem C1_dial_looks_up_once_witness:
  "fst (Dial_request ''www.qq.com:80'' (dialer_of_1 [1 \<mapsto> 2]) one_registered) = None
   \<and> reader (dialer_of_1 [1 \<mapsto> 2]) = Some 1
   \<and> ReadString (rx one_registered 1) = ((''1\<newline>'', None), [])
   \<and> Atoi (butlast ''1\<newline>'') = Inr 1
   \<and> fst (Dial ''www.qq.com:80'' (dialer_of_1 [1 \<mapsto> 2]) one_registered) = Inr 2"
proof -
  have h1: "fst (Dial_request ''www.qq.com:80'' (dialer_of_1 [1 \<mapsto> 2]) one_registered) = None"
    by (simp add: gateway_defs run_defs dialer_of_1_def one_registered_def)
  have h2: "reader (dialer_of_1 [1 \<mapsto> 2]) = Some 1"
    by (simp add: dialer_of_1_def)
  have h3: "ReadString (rx one_registered 1) = ((''1\<newline>'', None), [])"
    by (simp add: gateway_defs run_defs one_registered_def)
  have h4: "Atoi (butlast ''1\<newline>'') = Inr 1"
    by (simp add: Atoi_def is_digit_def)
  from C1_dial_looks_up_once [OF h1 h2 h3 h4] h1 h2 h3 h4 show ?thesis
    by (simp add: dialer_of_1_def)
qed

subsection \<open>The table is never shrunk\<close>

text \<open>
  C9, as the code has it: \<open>Dial\<close> leaves the table as it is, whether it returns a
  connection or an error, and so does \<open>handleClientConn\<close> around it; \<open>setProxyConn\<close> sets
  the entry of its ID and touches no other. No function of the program removes an entry.
\<close>

theorem C9_table_entries_stay:
  "conns (fst (snd (Dial addr d s))) = conns d
   \<and> map_option conns (defaultDialer (handleClientConn c s)) = map_option conns (defaultDialer s)
   \<and> conns (fst (setProxyConn connID c d s)) = (conns d)(connID \<mapsto> c)"
proof -
  have dial: "conns (fst (snd (Dial addr d s))) = conns d" for addr d s
  proof (cases "fst (Dial_request addr d s)")
    case None
    then show ?thesis
      by (simp add: Dial_after_request Dial_response_frame Dial_request_frame)
  next
    case (Some e)
    then show ?thesis
      using Dial_request_frame(1) [of addr d s]
      by (auto simp: Dial_def split: prod.splits)
  qed
  have "map_option conns (defaultDialer (handleClientConn c s)) = map_option conns (defaultDialer s)"
  proof (cases "defaultDialer s")
    case None
    then show ?thesis by (simp add: handleClientConn_def closeConn_def)
  next
    case (Some d0)
    with dial [of "RAddr s" d0 s] show ?thesis
      by (auto simp: handleClientConn_def closeConn_def split: prod.splits sum.splits)
  qed
  with dial show ?thesis
    by (simp add: setProxyConn_def)
qed

text \<open>
  The claim C9 fails on the Gateway \<open>one_registered\<close>: an application connection (9) dials,
  obtains the Data Link registered under ID 1 (connection 2), the tunnel runs and both
  connections are closed, and the table still holds connection 2 under ID 1.
\<close>

theorem C9_counterexample:
  "new_events one_registered (handleClientConn 9 one_registered) =
     [Wrote 1 ''dial:www.qq.com:80\<newline>'' None, ReadLine 1 ''1\<newline>'' None, Piped 9 2,
      Closed 2, Closed 9]
   \<and> map_option (\<lambda>d. conns d 1) (defaultDialer (handleClientConn 9 one_registered)) =
       Some (Some 2)"
  by (simp add: gateway_defs run_defs one_registered_def)

theorem C9_table_entries_stay_witness:
  "fst (Dial ''www.qq.com:80'' (dialer_of_1 [1 \<mapsto> 2]) one_registered) = Inr 2
   \<and> conns (fst (snd (Dial ''www.qq.com:80'' (dialer_of_1 [1 \<mapsto> 2]) one_registered))) 1 = Some 2"
proof -
  have "fst (Dial ''www.qq.com:80'' (dialer_of_1 [1 \<mapsto> 2]) one_registered) = Inr 2"
    by (simp add: gateway_defs run_defs dialer_of_1_def one_registered_def)
  with C9_table_entries_stay [of "''www.qq.com:80''" "dialer_of_1 [1 \<mapsto> 2]" one_registered]
  show ?thesis
    by (simp add: dialer_of_1_def)
qed

subsection \<open>Two goroutines on the one Control Link\<close>

text \<open>
  C8, on the run \<open>two_pending_dials\<close>. On the Relay the two request lines are answered in
  their order: ID 1 goes with the tunnel to \<open>a.example:80\<close> (and its newline), ID 2 with the
  tunnel to \<open>b.example:80\<close>, and the response lines \<open>1\<close> and \<open>2\<close> are written on the Control
  Link (connection 0 there) in that order. On the Gateway goroutine B, which wrote the
  second request, is scheduled first for the second part of \<open>Dial\<close>: it reads the line \<open>1\<close>
  and returns connection 2, the Data Link of the first request; goroutine A then reads
  the line \<open>2\<close> and returns connection 3, the Data Link of the second request.
\<close>

theorem C8_responses_swapped:
  "new_events (relay_state ''dial:a.example:80\<newline>dial:b.example:80\<newline>'' [] ''ok\<newline>'')
     (snd (handleProxy_iter 2 0 (bufio_NewWriter 0)
        (relay_state ''dial:a.example:80\<newline>dial:b.example:80\<newline>'' [] ''ok\<newline>''))) =
     [ReadLine 0 ''dial:a.example:80\<newline>'' None, Dialed ''127.0.0.1:7002'' (Some 1),
      Dialed ''a.example:80\<newline>'' (Some 2), Wrote 1 ''1\<newline>'' None,
      ReadLine 1 ''ok\<newline>'' None, Wrote 0 ''1\<newline>'' None, Go_pipeRemote 2 1,
      ReadLine 0 ''dial:b.example:80\<newline>'' None, Dialed ''127.0.0.1:7002'' (Some 3),
      Dialed ''b.example:80\<newline>'' (Some 4), Wrote 3 ''2\<newline>'' None,
      ReadLine 3 ''ok\<newline>'' None, Wrote 0 ''2\<newline>'' None, Go_pipeRemote 4 3]
   \<and> trace two_pending_dials =
     [Wrote 1 ''dial:a.example:80\<newline>'' None, Wrote 1 ''dial:b.example:80\<newline>'' None,
      ReadLine 2 ''1\<newline>'' None, Registered 1 2, Wrote 2 ''ok\<newline>'' None,
      ReadLine 3 ''2\<newline>'' None, Registered 2 3, Wrote 3 ''ok\<newline>'' None]
   \<and> fst (Dial_response_step two_pending_dials) = Inr 2
   \<and> fst (Dial_response_step (snd (Dial_response_step two_pending_dials))) = Inr 3"
proof -
  have relay: "new_events (relay_state ''dial:a.example:80\<newline>dial:b.example:80\<newline>'' [] ''ok\<newline>'')
     (snd (handleProxy_iter 2 0 (bufio_NewWriter 0)
        (relay_state ''dial:a.example:80\<newline>dial:b.example:80\<newline>'' [] ''ok\<newline>''))) =
     [ReadLine 0 ''dial:a.example:80\<newline>'' None, Dialed ''127.0.0.1:7002'' (Some 1),
      Dialed ''a.example:80\<newline>'' (Some 2), Wrote 1 ''1\<newline>'' None,
      ReadLine 1 ''ok\<newline>'' None, Wrote 0 ''1\<newline>'' None, Go_pipeRemote 2 1,
      ReadLine 0 ''dial:b.example:80\<newline>'' None, Dialed ''127.0.0.1:7002'' (Some 3),
      Dialed ''b.example:80\<newline>'' (Some 4), Wrote 3 ''2\<newline>'' None,
      ReadLine 3 ''ok\<newline>'' None, Wrote 0 ''2\<newline>'' None, Go_pipeRemote 4 3]"
    by (simp add: run_defs)
  have gateway: "trace two_pending_dials =
     [Wrote 1 ''dial:a.example:80\<newline>'' None, Wrote 1 ''dial:b.example:80\<newline>'' None,
      ReadLine 2 ''1\<newline>'' None, Registered 1 2, Wrote 2 ''ok\<newline>'' None,
      ReadLine 3 ''2\<newline>'' None, Registered 2 3, Wrote 3 ''ok\<newline>'' None]"
    by (simp add: gateway_defs run_defs)
  have b: "fst (Dial_response_step two_pending_dials) = Inr 2"
    by (simp add: gateway_defs run_defs)
  have a: "fst (Dial_response_step (snd (Dial_response_step two_pending_dials))) = Inr 3"
    by (simp add: gateway_defs run_defs)
  from relay gateway a b show ?thesis
    by blast
qed

end
